theory Spec2Isabelle
  imports Complex_Main
begin

section \<open>Data model\<close>

text \<open>
  The models of \<^verbatim>\<open>accounts/models.py\<close> and \<^verbatim>\<open>jobs/models.py\<close>, restricted to the
  columns that the embedded methods read or write. A row is a record, a table is the list
  of its rows, a foreign key is the primary key of the row it points to, and a
  many-to-many field is the list of the rows of its link table. Character columns are
  strings (in particular every \<^verbatim>\<open>status\<close> column: the code compares it with string
  literals), dates and timestamps are integers. The image column \<^verbatim>\<open>profile_picture\<close> is
  the name of its file, empty when there is none (a field file is true when its name is
  not empty).
\<close>

record user =
  user_id :: nat
  first_name :: string
  last_name :: string
  role :: string
  phone_number :: string
  profile_picture :: string
  is_verified :: bool
  bio :: string
  location :: string

record skill =
  skill_id :: nat
  skill_name :: string
  skill_description :: string
  skill_category :: string

record user_profile =
  profile_user :: nat
  jobs_completed :: nat
  jobs_posted :: nat

record job =
  job_id :: nat
  job_title :: string
  job_description :: string
  job_category :: nat
  job_poster :: nat
  job_location :: string
  job_event_date :: int
  job_status :: string
  job_is_urgent :: bool
  job_created_at :: int

record job_application =
  app_job :: nat
  app_volunteer :: nat
  app_status :: string
  app_relevant_experience :: string

record job_review =
  review_job :: nat
  review_reviewer :: nat
  review_reviewee :: nat
  review_rating :: nat

record db =
  db_jobs :: "job list"
  db_applications :: "job_application list"
  db_reviews :: "job_review list"
  db_skills :: "skill list"
  db_user_skills :: "(nat \<times> nat) list"
  db_job_required_skills :: "(nat \<times> nat) list"
  db_profiles :: "user_profile list"

text \<open>
  What the code can raise: reading an attribute that the object does not have, and
  reading a name that no scope binds.
\<close>

datatype error = AttributeError string | NameError string | TypeError string

section \<open>Review eligibility: \<^verbatim>\<open>User.can_leave_review_for\<close>\<close>

text \<open>
  \<^verbatim>\<open>JobApplication.objects.filter(job=job, volunteer=user, status='accepted').exists()\<close>
  and \<^verbatim>\<open>JobReview.objects.filter(job=job, reviewer=self, reviewee=user).exists()\<close>.
  A query reads the database and leaves it as it is, so it returns its answer together
  with the database it was given.
\<close>

definition accepted_application_exists :: "job \<Rightarrow> user \<Rightarrow> db \<Rightarrow> bool \<times> db" where
  "accepted_application_exists job volunteer d =
     (filter (\<lambda>a. app_job a = job_id job \<and> app_volunteer a = user_id volunteer
                  \<and> app_status a = ''accepted'') (db_applications d) \<noteq> [], d)"

definition review_exists :: "job \<Rightarrow> user \<Rightarrow> user \<Rightarrow> db \<Rightarrow> bool \<times> db" where
  "review_exists job reviewer reviewee d =
     (filter (\<lambda>r. review_job r = job_id job \<and> review_reviewer r = user_id reviewer
                  \<and> review_reviewee r = user_id reviewee) (db_reviews d) \<noteq> [], d)"

text \<open>The four messages of the method, in the order in which it can return them.\<close>

definition msg_not_worked_together :: string where
  "msg_not_worked_together = ''You haven't worked together on this job''"

definition msg_not_completed :: string where
  "msg_not_completed = ''Job must be completed before leaving reviews''"

definition msg_already_reviewed :: string where
  "msg_already_reviewed = ''You have already reviewed this person for this job''"

definition msg_can_leave_review :: string where
  "msg_can_leave_review = ''Can leave review''"

text \<open>
  The method, with the database threaded through its queries. Two users are equal when
  their primary keys are (Django's model equality); the result is the pair the
  method returns, and the database after the call.
\<close>

definition can_leave_review_for :: "user \<Rightarrow> user \<Rightarrow> job \<Rightarrow> db \<Rightarrow> (bool \<times> string) \<times> db" where
  "can_leave_review_for self usr job d =
     (let (worked_together, d1) =
            (if user_id self = job_poster job then accepted_application_exists job usr d
             else if user_id usr = job_poster job then accepted_application_exists job self d
             else (False, d))
      in if \<not> worked_together then ((False, msg_not_worked_together), d1)
         else if job_status job \<noteq> ''completed'' then ((False, msg_not_completed), d1)
         else (let (existing_review, d2) = review_exists job self usr d1
               in if existing_review then ((False, msg_already_reviewed), d2)
                  else ((True, msg_can_leave_review), d2)))"

subsection \<open>The three checks in the words of the specification\<close>

text \<open>
  Co-participation: the actor is the poster and the target has an accepted application
  for the job, or the target is the poster and the actor has one. Both can hold only when
  actor and target are the same user.
\<close>

definition co_participation :: "db \<Rightarrow> user \<Rightarrow> user \<Rightarrow> job \<Rightarrow> bool" where
  "co_participation d actor target job \<longleftrightarrow>
     (user_id actor = job_poster job \<and>
        (\<exists>a \<in> set (db_applications d). app_job a = job_id job
            \<and> app_volunteer a = user_id target \<and> app_status a = ''accepted''))
     \<or> (user_id target = job_poster job \<and>
        (\<exists>a \<in> set (db_applications d). app_job a = job_id job
            \<and> app_volunteer a = user_id actor \<and> app_status a = ''accepted''))"

definition job_is_completed :: "job \<Rightarrow> bool" where
  "job_is_completed job \<longleftrightarrow> job_status job = ''completed''"

definition already_reviewed :: "db \<Rightarrow> user \<Rightarrow> user \<Rightarrow> job \<Rightarrow> bool" where
  "already_reviewed d actor target job \<longleftrightarrow>
     (\<exists>r \<in> set (db_reviews d). review_job r = job_id job
         \<and> review_reviewer r = user_id actor \<and> review_reviewee r = user_id target)"

lemma filter_nonempty_iff: "filter P xs \<noteq> [] \<longleftrightarrow> (\<exists>x \<in> set xs. P x)"
  by (simp add: filter_empty_conv)

lemma worked_together_iff:
  "fst (if user_id self = job_poster job then accepted_application_exists job usr d
        else if user_id usr = job_poster job then accepted_application_exists job self d
        else (False, d))
   \<longleftrightarrow> co_participation d self usr job"
  by (auto simp: accepted_application_exists_def co_participation_def filter_nonempty_iff)

lemma worked_together_db:
  "snd (if user_id self = job_poster job then accepted_application_exists job usr d
        else if user_id usr = job_poster job then accepted_application_exists job self d
        else (False, d)) = d"
  by (simp add: accepted_application_exists_def)

lemma can_leave_review_for_cases:
  "can_leave_review_for self usr job d =
     ((if \<not> co_participation d self usr job then (False, msg_not_worked_together)
       else if \<not> job_is_completed job then (False, msg_not_completed)
       else if already_reviewed d self usr job then (False, msg_already_reviewed)
       else (True, msg_can_leave_review)), d)"
proof -
  let ?w = "if user_id self = job_poster job then accepted_application_exists job usr d
            else if user_id usr = job_poster job then accepted_application_exists job self d
            else (False, d)"
  have w: "?w = (co_participation d self usr job, d)"
    using worked_together_iff [of self job usr d] worked_together_db [of self job usr d]
    by (simp add: prod_eq_iff)
  have r: "review_exists job self usr d = (already_reviewed d self usr job, d)"
    by (simp add: review_exists_def already_reviewed_def filter_nonempty_iff)
  show ?thesis
    unfolding can_leave_review_for_def w
    by (simp add: r job_is_completed_def)
qed

lemma messages_distinct:
  "msg_not_worked_together \<noteq> msg_not_completed"
  "msg_not_worked_together \<noteq> msg_already_reviewed"
  "msg_not_completed \<noteq> msg_already_reviewed"
  by (simp_all add: msg_not_worked_together_def msg_not_completed_def msg_already_reviewed_def)

subsection \<open>Fixtures: a poster, a volunteer and their job\<close>

definition poster_user :: user where
  "poster_user = \<lparr>user_id = 1, first_name = ''Asha'', last_name = ''Rao'', role = ''volunteer'',
     phone_number = ''+919999999999'', profile_picture = ''profile_pics/asha.png'',
     is_verified = True, bio = ''Event organiser'', location = ''Mumbai, Maharashtra''\<rparr>"

definition volunteer_user :: user where
  "volunteer_user = \<lparr>user_id = 2, first_name = [], last_name = [], role = ''volunteer'',
     phone_number = [], profile_picture = [], is_verified = False, bio = [],
     location = []\<rparr>"

definition completed_job :: job where
  "completed_job = \<lparr>job_id = 10, job_title = ''Wedding photo shoot'',
     job_description = ''Two photographers for a wedding'', job_category = 1, job_poster = 1,
     job_location = ''Mumbai'', job_event_date = 100, job_status = ''completed'',
     job_is_urgent = False, job_created_at = 50\<rparr>"

definition in_progress_job :: job where
  "in_progress_job = completed_job\<lparr>job_status := ''in_progress''\<rparr>"

definition application_with_status :: "string \<Rightarrow> job_application" where
  "application_with_status st = \<lparr>app_job = 10, app_volunteer = 2, app_status = st,
     app_relevant_experience = ''Shot three weddings''\<rparr>"

definition empty_db :: db where
  "empty_db = \<lparr>db_jobs = [], db_applications = [], db_reviews = [], db_skills = [],
     db_user_skills = [], db_job_required_skills = [], db_profiles = []\<rparr>"

text \<open>Scenario D: the volunteer's application for the completed job is still pending.\<close>

definition scenario_D_db :: db where
  "scenario_D_db = empty_db\<lparr>db_jobs := [completed_job],
     db_applications := [application_with_status ''pending'']\<rparr>"

definition accepted_db :: db where
  "accepted_db = empty_db\<lparr>db_jobs := [completed_job],
     db_applications := [application_with_status ''accepted'']\<rparr>"

definition reviewed_db :: db where
  "reviewed_db = accepted_db\<lparr>db_reviews :=
     [\<lparr>review_job = 10, review_reviewer = 1, review_reviewee = 2, review_rating = 5\<rparr>]\<rparr>"

lemmas gate_fixture_defs =
  poster_user_def volunteer_user_def completed_job_def in_progress_job_def
  application_with_status_def empty_db_def scenario_D_db_def accepted_db_def reviewed_db_def

lemma gate_denied_not_worked_together:
  "can_leave_review_for poster_user volunteer_user completed_job scenario_D_db
     = ((False, msg_not_worked_together), scenario_D_db)"
  by (simp add: can_leave_review_for_def accepted_application_exists_def gate_fixture_defs)

lemma gate_denied_not_completed:
  "can_leave_review_for poster_user volunteer_user in_progress_job accepted_db
     = ((False, msg_not_completed), accepted_db)"
  by (simp add: can_leave_review_for_def accepted_application_exists_def gate_fixture_defs)

lemma gate_denied_already_reviewed:
  "can_leave_review_for poster_user volunteer_user completed_job reviewed_db
     = ((False, msg_already_reviewed), reviewed_db)"
  by (simp add: can_leave_review_for_def accepted_application_exists_def review_exists_def
      gate_fixture_defs)

lemma gate_allowed:
  "can_leave_review_for volunteer_user poster_user completed_job reviewed_db
     = ((True, msg_can_leave_review), reviewed_db)"
  by (simp add: can_leave_review_for_def accepted_application_exists_def review_exists_def
      gate_fixture_defs)

subsection \<open>Claims about the review eligibility gate\<close>

text \<open>
  C3. For every actor, target and job, the eligibility gate makes the three checks in the order
  co-participation, job completion, review uniqueness; the first check that fails decides
  the answer, which is \<open>False\<close> with the message of that check; when all three pass the
  answer is \<open>True\<close>. In every case the database after the call is the database before
  it: no review is created and nothing else is written.
\<close>

theorem can_leave_review_for_three_checks:
  "can_leave_review_for actor target job d =
     ((if \<not> co_participation d actor target job then (False, msg_not_worked_together)
       else if \<not> job_is_completed job then (False, msg_not_completed)
       else if already_reviewed d actor target job then (False, msg_already_reviewed)
       else (True, msg_can_leave_review)), d)"
  by (rule can_leave_review_for_cases)

theorem can_leave_review_for_three_checks_witness:
  "co_participation reviewed_db volunteer_user poster_user completed_job
   \<and> job_is_completed completed_job
   \<and> \<not> already_reviewed reviewed_db volunteer_user poster_user completed_job
   \<and> can_leave_review_for volunteer_user poster_user completed_job reviewed_db
       = ((True, msg_can_leave_review), reviewed_db)"
  using can_leave_review_for_three_checks [of volunteer_user poster_user completed_job reviewed_db]
  by (simp add: co_participation_def job_is_completed_def already_reviewed_def gate_fixture_defs)

text \<open>
  C4. The gate answers with the message of the first check ("You haven't worked together
  on this job") exactly when co-participation fails, that is, unless one of the two
  parties is the poster of the job and the other has an application for this job whose
  status is \<^verbatim>\<open>accepted\<close>. The witness is Scenario D: poster and volunteer, a completed
  job, and an application that is \<^verbatim>\<open>pending\<close>.
\<close>

theorem co_participation_needs_accepted_application:
  "fst (can_leave_review_for actor target job d) = (False, msg_not_worked_together)
   \<longleftrightarrow> \<not> ((user_id actor = job_poster job \<and>
             (\<exists>a \<in> set (db_applications d). app_job a = job_id job
                \<and> app_volunteer a = user_id target \<and> app_status a = ''accepted''))
          \<or> (user_id target = job_poster job \<and>
             (\<exists>a \<in> set (db_applications d). app_job a = job_id job
                \<and> app_volunteer a = user_id actor \<and> app_status a = ''accepted'')))"
  using messages_distinct
  by (simp add: can_leave_review_for_cases co_participation_def)

theorem co_participation_needs_accepted_application_witness:
  "user_id poster_user = job_poster completed_job
   \<and> job_status completed_job = ''completed''
   \<and> map app_status (db_applications scenario_D_db) = [''pending'']
   \<and> fst (can_leave_review_for poster_user volunteer_user completed_job scenario_D_db)
       = (False, msg_not_worked_together)"
  using co_participation_needs_accepted_application
          [of poster_user volunteer_user completed_job scenario_D_db]
  by (simp add: gate_fixture_defs)

text \<open>
  C10 as the specification states it: each denial carries an enumerated reason code
  beside its message, so that a caller can tell the denials apart without comparing
  strings. The method returns a pair of a truth value and a message and nothing else, and
  the truth value is \<open>False\<close> in every denial: whatever code a caller computes from the
  part of the answer that is not the message, it is the same for a denial of the first
  check and a denial of the second.
\<close>

theorem gate_reason_code_counterexample:
  "\<not> (\<exists>code :: bool \<Rightarrow> nat.
        code (fst (fst (can_leave_review_for poster_user volunteer_user completed_job scenario_D_db)))
        \<noteq> code (fst (fst (can_leave_review_for poster_user volunteer_user in_progress_job accepted_db))))"
  by (simp add: gate_denied_not_worked_together gate_denied_not_completed)

text \<open>
  C10 as amended: the answer of the gate is one of four pairs, the three denials being
  \<open>False\<close> with one of three messages; the three messages are pairwise different, so the
  message string is what tells the denials apart.
\<close>

theorem gate_denials_differ_by_message_only:
  "fst (can_leave_review_for actor target job d) \<in>
     {(False, msg_not_worked_together), (False, msg_not_completed),
      (False, msg_already_reviewed), (True, msg_can_leave_review)}
   \<and> msg_not_worked_together \<noteq> msg_not_completed
   \<and> msg_not_worked_together \<noteq> msg_already_reviewed
   \<and> msg_not_completed \<noteq> msg_already_reviewed"
  using messages_distinct
  by (simp add: can_leave_review_for_cases)

section \<open>Reputation: \<^verbatim>\<open>User.reputation_score\<close> and \<^verbatim>\<open>User.reputation_level\<close>\<close>

text \<open>
  Python's floats are modelled by exact rationals, and its \<^verbatim>\<open>round\<close> (to the nearest, a
  tie to the even neighbour) is computed on them; the two can differ only where a float
  lies within its representation error of a tie. For \<^verbatim>\<open>round(mean, 1)\<close> that is a mean
  such as 4.35: the double nearest to it lies below the tie and Python answers 4.3, where
  the exact tie goes to 4.4. The mean \<open>14 / 3\<close> of Scenario A is no tie.
\<close>

definition py_round :: "rat \<Rightarrow> int" where
  "py_round x =
     (let f = \<lfloor>x\<rfloor>; r = x - of_int f
      in if r < 1 / 2 then f else if 1 / 2 < r then f + 1
         else if even f then f else f + 1)"

definition py_round_1 :: "rat \<Rightarrow> rat" where
  "py_round_1 x = of_int (py_round (x * 10)) / 10"

text \<open>
  Attribute access by name on a \<^verbatim>\<open>User\<close> instance: the columns of the record answer with
  their value, every other name raises \<^verbatim>\<open>AttributeError\<close>. The names that the record leaves
  out (the other columns of \<^verbatim>\<open>User\<close> and of its base \<^verbatim>\<open>AbstractUser\<close>, the properties and
  methods, the reverse relations such as \<^verbatim>\<open>profile\<close> and \<^verbatim>\<open>posted_jobs\<close>) are never looked
  up by the code embedded here, and none of them is \<^verbatim>\<open>jobs_completed\<close>: that counter is a
  column of \<^verbatim>\<open>UserProfile\<close> (the record \<^typ>\<open>user_profile\<close>), reached as
  \<^verbatim>\<open>user.profile.jobs_completed\<close>.
\<close>

datatype py_value = PyStr string | PyBool bool | PyInt int

fun truthy :: "py_value \<Rightarrow> bool" where
  "truthy (PyStr s) = (s \<noteq> [])"
| "truthy (PyBool b) = b"
| "truthy (PyInt n) = (n \<noteq> 0)"

definition getattr :: "user \<Rightarrow> string \<Rightarrow> error + py_value" where
  "getattr self name =
     (if name = ''id'' then Inr (PyInt (int (user_id self)))
      else if name = ''first_name'' then Inr (PyStr (first_name self))
      else if name = ''last_name'' then Inr (PyStr (last_name self))
      else if name = ''role'' then Inr (PyStr (role self))
      else if name = ''phone_number'' then Inr (PyStr (phone_number self))
      else if name = ''profile_picture'' then Inr (PyStr (profile_picture self))
      else if name = ''is_verified'' then Inr (PyBool (is_verified self))
      else if name = ''bio'' then Inr (PyStr (bio self))
      else if name = ''location'' then Inr (PyStr (location self))
      else Inl (AttributeError name))"

text \<open>\<^verbatim>\<open>JobReview.objects.filter(reviewee=self)\<close>\<close>

definition reviews_received :: "db \<Rightarrow> user \<Rightarrow> job_review list" where
  "reviews_received d self = filter (\<lambda>r. review_reviewee r = user_id self) (db_reviews d)"

definition average_rating :: "db \<Rightarrow> user \<Rightarrow> rat" where
  "average_rating d self =
     (let reviews = reviews_received d self
      in if reviews \<noteq> []
         then py_round_1 (of_nat (sum_list (map review_rating reviews)) / of_nat (length reviews))
         else 0)"

definition total_reviews_count :: "db \<Rightarrow> user \<Rightarrow> nat" where
  "total_reviews_count d self = length (reviews_received d self)"

definition fields_to_check :: "string list" where
  "fields_to_check =
     [''first_name'', ''last_name'', ''bio'', ''location'', ''phone_number'', ''profile_picture'']"

text \<open>\<^verbatim>\<open>sum(1 for field in fields_to_check if getattr(self, field))\<close>\<close>

fun completed_fields :: "user \<Rightarrow> string list \<Rightarrow> error + nat" where
  "completed_fields self [] = Inr 0"
| "completed_fields self (field # rest) =
     (case getattr self field of
        Inl e \<Rightarrow> Inl e
      | Inr v \<Rightarrow>
          (case completed_fields self rest of
             Inl e \<Rightarrow> Inl e
           | Inr n \<Rightarrow> Inr ((if truthy v then 1 else 0) + n)))"

definition calculate_profile_completeness :: "user \<Rightarrow> error + rat" where
  "calculate_profile_completeness self =
     (case completed_fields self fields_to_check of
        Inl e \<Rightarrow> Inl e
      | Inr n \<Rightarrow> Inr (of_nat n / of_nat (length fields_to_check)))"

text \<open>The five components, named as the local variables of \<^verbatim>\<open>reputation_score\<close>.\<close>

definition rating_score :: "db \<Rightarrow> user \<Rightarrow> rat" where
  "rating_score d self = (average_rating d self / 5) * 50"

definition review_count_score :: "db \<Rightarrow> user \<Rightarrow> int" where
  "review_count_score d self = min (int (total_reviews_count d self) * 2) 20"

definition verification_score :: "user \<Rightarrow> int" where
  "verification_score self = (if is_verified self then 15 else 0)"

definition profile_score :: "user \<Rightarrow> error + rat" where
  "profile_score self =
     (case calculate_profile_completeness self of
        Inl e \<Rightarrow> Inl e
      | Inr c \<Rightarrow> Inr (c * 10))"

text \<open>\<^verbatim>\<open>min(n * 0.5, 5)\<close> for the value \<open>n\<close> of the counter; a string has no such product.\<close>

fun half_capped :: "py_value \<Rightarrow> error + rat" where
  "half_capped (PyInt n) = Inr (min (of_int n * (1 / 2)) 5)"
| "half_capped (PyBool b) = Inr (min ((if b then 1 else 0) * (1 / 2)) 5)"
| "half_capped (PyStr s) = Inl (TypeError ''can't multiply sequence by non-int of type float'')"

definition activity_score :: "user \<Rightarrow> error + rat" where
  "activity_score self =
     (case getattr self ''jobs_completed'' of
        Inl e \<Rightarrow> Inl e
      | Inr n \<Rightarrow> half_capped n)"

text \<open>\<^verbatim>\<open>min(round(total_score), 100)\<close>\<close>

definition capped_total :: "rat \<Rightarrow> int \<Rightarrow> int \<Rightarrow> rat \<Rightarrow> rat \<Rightarrow> int" where
  "capped_total rating review_count verification profile activity =
     min (py_round (rating + of_int review_count + of_int verification + profile + activity)) 100"

text \<open>
  The property, its statements in their order; the first one that raises ends the
  evaluation with its exception.
\<close>

definition reputation_score :: "db \<Rightarrow> user \<Rightarrow> error + int" where
  "reputation_score d self =
     (let rating = rating_score d self;
          review_count = review_count_score d self;
          verification = verification_score self
      in case profile_score self of
           Inl e \<Rightarrow> Inl e
         | Inr profile \<Rightarrow>
             (case activity_score self of
                Inl e \<Rightarrow> Inl e
              | Inr activity \<Rightarrow>
                  Inr (capped_total rating review_count verification profile activity)))"

record level_info =
  level :: string
  color :: string
  icon :: string

definition level_of_score :: "int \<Rightarrow> level_info" where
  "level_of_score score =
     (if score \<ge> 90 then \<lparr>level = ''Elite'', color = ''warning'', icon = ''fas fa-crown''\<rparr>
      else if score \<ge> 75 then \<lparr>level = ''Excellent'', color = ''success'', icon = ''fas fa-star''\<rparr>
      else if score \<ge> 60 then \<lparr>level = ''Good'', color = ''info'', icon = ''fas fa-thumbs-up''\<rparr>
      else if score \<ge> 40 then \<lparr>level = ''Fair'', color = ''secondary'', icon = ''fas fa-user''\<rparr>
      else \<lparr>level = ''New'', color = ''light'', icon = ''fas fa-seedling''\<rparr>)"

definition reputation_level :: "db \<Rightarrow> user \<Rightarrow> error + level_info" where
  "reputation_level d self =
     (case reputation_score d self of
        Inl e \<Rightarrow> Inl e
      | Inr score \<Rightarrow> Inr (level_of_score score))"

subsection \<open>What the property computes\<close>

lemma getattr_jobs_completed: "getattr self ''jobs_completed'' = Inl (AttributeError ''jobs_completed'')"
  by (simp add: getattr_def)

lemma completed_fields_checked:
  "completed_fields self fields_to_check =
     Inr ((if first_name self \<noteq> [] then 1 else 0) + ((if last_name self \<noteq> [] then 1 else 0)
        + ((if bio self \<noteq> [] then 1 else 0) + ((if location self \<noteq> [] then 1 else 0)
        + ((if phone_number self \<noteq> [] then 1 else 0)
        + ((if profile_picture self \<noteq> [] then 1 else 0) + 0))))))"
  by (simp add: fields_to_check_def getattr_def)

lemma profile_score_returns: "\<exists>p. profile_score self = Inr p"
  by (simp add: profile_score_def calculate_profile_completeness_def completed_fields_checked)

lemma reputation_score_raises:
  "reputation_score d self = Inl (AttributeError ''jobs_completed'')"
proof -
  obtain p where p: "profile_score self = Inr p"
    using profile_score_returns by blast
  show ?thesis
    by (simp add: reputation_score_def p activity_score_def getattr_jobs_completed)
qed

lemma reputation_level_raises:
  "reputation_level d self = Inl (AttributeError ''jobs_completed'')"
  by (simp add: reputation_level_def reputation_score_raises)

subsection \<open>Fixtures: Scenario A and Scenario B\<close>

text \<open>
  Scenario A: the user \<^term>\<open>poster_user\<close> (verified, the six profile fields filled) has
  received the ratings 5, 5 and 4, and the profile row of the user counts 10 completed
  jobs. Scenario B: the user \<^term>\<open>volunteer_user\<close> (not verified, no profile field
  filled) in the empty database.
\<close>

definition scenario_A_db :: db where
  "scenario_A_db = empty_db\<lparr>
     db_reviews :=
       [\<lparr>review_job = 10, review_reviewer = 2, review_reviewee = 1, review_rating = 5\<rparr>,
        \<lparr>review_job = 11, review_reviewer = 3, review_reviewee = 1, review_rating = 5\<rparr>,
        \<lparr>review_job = 12, review_reviewer = 4, review_reviewee = 1, review_rating = 4\<rparr>],
     db_profiles := [\<lparr>profile_user = 1, jobs_completed = 10, jobs_posted = 3\<rparr>]\<rparr>"

lemma scenario_A_reviews:
  "map review_rating (reviews_received scenario_A_db poster_user) = [5, 5, 4]"
  by (simp add: reviews_received_def scenario_A_db_def empty_db_def poster_user_def)

lemma py_round_140_3: "py_round (140 / 3) = 47"
  by code_simp

lemma scenario_A_average_rating: "average_rating scenario_A_db poster_user = 47 / 10"
proof -
  have "reviews_received scenario_A_db poster_user \<noteq> []"
    using scenario_A_reviews by auto
  moreover have "sum_list (map review_rating (reviews_received scenario_A_db poster_user)) = 14"
    by (simp add: scenario_A_reviews)
  moreover have "length (reviews_received scenario_A_db poster_user) = 3"
    using scenario_A_reviews by (metis length_map length_Cons list.size(3) numeral_3_eq_3)
  ultimately show ?thesis
    by (simp add: average_rating_def Let_def py_round_1_def py_round_140_3)
qed

lemma scenario_A_rating_score: "rating_score scenario_A_db poster_user = 47"
  by (simp add: rating_score_def scenario_A_average_rating)

lemma scenario_A_review_count_score: "review_count_score scenario_A_db poster_user = 6"
proof -
  have "length (reviews_received scenario_A_db poster_user) = 3"
    using scenario_A_reviews by (metis length_map length_Cons list.size(3) numeral_3_eq_3)
  then show ?thesis
    by (simp add: review_count_score_def total_reviews_count_def)
qed

lemma length_fields_to_check: "length fields_to_check = 6"
  by (simp add: fields_to_check_def)

lemma scenario_A_completed_fields: "completed_fields poster_user fields_to_check = Inr 6"
  unfolding completed_fields_checked by (simp add: poster_user_def)

lemma scenario_A_profile_score: "profile_score poster_user = Inr 10"
  by (simp add: profile_score_def calculate_profile_completeness_def
      scenario_A_completed_fields length_fields_to_check)

lemma scenario_A_verification_score: "verification_score poster_user = 15"
  by (simp add: verification_score_def poster_user_def)

lemma py_round_83: "py_round 83 = 83"
  by code_simp

lemma capped_total_83: "capped_total 47 6 15 10 5 = 83"
  by (simp add: capped_total_def py_round_83)

subsection \<open>The arithmetic of the last two lines\<close>

lemma py_round_nonneg: "0 \<le> x \<Longrightarrow> 0 \<le> py_round x"
proof -
  assume "0 \<le> x"
  then have "0 \<le> \<lfloor>x\<rfloor>" by simp
  then show ?thesis by (simp add: py_round_def Let_def)
qed

lemma capped_total_bounds:
  assumes "0 \<le> rating" "0 \<le> review_count" "0 \<le> verification" "0 \<le> profile" "0 \<le> activity"
  shows "0 \<le> capped_total rating review_count verification profile activity
         \<and> capped_total rating review_count verification profile activity \<le> 100"
proof -
  have "0 \<le> rating + of_int review_count + of_int verification + profile + activity"
    using assms by simp
  then show ?thesis
    unfolding capped_total_def using py_round_nonneg by simp
qed

subsection \<open>Claims about the reputation score\<close>

text \<open>
  C1 states that the reputation score of every user is an integer between 0 and 100. The
  last two lines of the property do cap a sum of non-negative components
  (\<open>capped_total_bounds\<close>), but the property never reaches them: the activity component
  reads \<^verbatim>\<open>self.jobs_completed\<close>, which a \<^verbatim>\<open>User\<close> does not have. In Scenario A and in
  Scenario B, where the specification expects 83 and 0, the evaluation ends with the
  exception and returns no score.
\<close>

theorem reputation_score_scenarios_raise:
  "reputation_score scenario_A_db poster_user = Inl (AttributeError ''jobs_completed'')
   \<and> reputation_score empty_db volunteer_user = Inl (AttributeError ''jobs_completed'')"
  by (simp add: reputation_score_raises)

text \<open>
  C2. For every database and every user, evaluating \<^verbatim>\<open>reputation_score\<close> raises
  \<^verbatim>\<open>AttributeError\<close> for the name \<^verbatim>\<open>jobs_completed\<close>, and so does \<^verbatim>\<open>reputation_level\<close>,
  which evaluates the score first: the attribute is not one of \<^verbatim>\<open>User\<close>, whatever the
  \<^verbatim>\<open>UserProfile\<close> rows of the database hold.
\<close>

theorem reputation_score_always_raises:
  "getattr self ''jobs_completed'' = Inl (AttributeError ''jobs_completed'')
   \<and> reputation_score d self = Inl (AttributeError ''jobs_completed'')
   \<and> reputation_level d self = Inl (AttributeError ''jobs_completed'')"
  by (simp add: getattr_jobs_completed reputation_score_raises reputation_level_raises)

text \<open>
  C8 as the specification states it: in Scenario A the rating component is
  \<open>(mean / 5) * 50\<close> with the exact mean \<open>14 / 3\<close> of the ratings, about 46.67. The
  property \<^verbatim>\<open>average_rating\<close> rounds the mean to one decimal before it is used, so the
  component is 47.
\<close>

theorem scenario_A_rating_component_counterexample:
  "\<not> (rating_score scenario_A_db poster_user = ((5 + 5 + 4) / 3 / 5) * 50)"
  by (simp add: scenario_A_rating_score)

text \<open>
  C8 as amended: in Scenario A the average rating is 4.7 (the mean rounded to one
  decimal) and the rating component is 47; the volume, verification and profile
  components are 6, 15 and 10; a counter of 10 completed jobs gives
  \<open>min (10 * 0.5) 5 = 5\<close>; the five values sum to 83, which rounds to 83, and a score of
  83 has the level "Excellent".
\<close>

theorem scenario_A_components:
  "average_rating scenario_A_db poster_user = 47 / 10
   \<and> rating_score scenario_A_db poster_user = 47
   \<and> review_count_score scenario_A_db poster_user = 6
   \<and> verification_score poster_user = 15
   \<and> profile_score poster_user = Inr 10
   \<and> half_capped (PyInt 10) = Inr 5
   \<and> capped_total 47 6 15 10 5 = 83
   \<and> level (level_of_score 83) = ''Excellent''"
  by (simp add: scenario_A_average_rating scenario_A_rating_score scenario_A_review_count_score
      scenario_A_profile_score capped_total_83 scenario_A_verification_score level_of_score_def)

section \<open>Job recommendations: \<^verbatim>\<open>User.get_recommended_jobs\<close>\<close>

subsection \<open>Strings\<close>

text \<open>
  Strings are lists of 8-bit characters; \<^verbatim>\<open>str.lower\<close> is modelled on the ASCII letters and
  \<^verbatim>\<open>str.strip\<close> on the ASCII white space.
\<close>

definition lower_char :: "char \<Rightarrow> char" where
  "lower_char c =
     (case map_of (zip ''ABCDEFGHIJKLMNOPQRSTUVWXYZ'' ''abcdefghijklmnopqrstuvwxyz'') c of
        None \<Rightarrow> c
      | Some l \<Rightarrow> l)"

definition lower :: "string \<Rightarrow> string" where
  "lower s = map lower_char s"

fun split_on :: "char \<Rightarrow> string \<Rightarrow> string list" where
  "split_on sep [] = [[]]"
| "split_on sep (c # cs) =
     (if c = sep then [] # split_on sep cs
      else (case split_on sep cs of
              [] \<Rightarrow> [[c]]
            | part # parts \<Rightarrow> (c # part) # parts))"

definition is_space :: "char \<Rightarrow> bool" where
  "is_space c \<longleftrightarrow> c \<in> {CHR '' '', CHR 0x09, CHR 0x0A, CHR 0x0B, CHR 0x0C, CHR 0x0D,
                        CHR 0x1C, CHR 0x1D, CHR 0x1E, CHR 0x1F}"

definition strip :: "string \<Rightarrow> string" where
  "strip s = rev (dropWhile is_space (rev (dropWhile is_space s)))"

text \<open>\<^verbatim>\<open>needle in haystack\<close>: the needle is a contiguous part of the haystack.\<close>

fun starts_with :: "string \<Rightarrow> string \<Rightarrow> bool" where
  "starts_with [] haystack = True"
| "starts_with (n # needle) [] = False"
| "starts_with (n # needle) (h # haystack) = (n = h \<and> starts_with needle haystack)"

fun contains :: "string \<Rightarrow> string \<Rightarrow> bool" where
  "contains needle [] = (needle = [])"
| "contains needle (h # haystack) =
     (starts_with needle (h # haystack) \<or> contains needle haystack)"

text \<open>The lookup \<^verbatim>\<open>location__icontains=part\<close>: containment, letter case ignored.\<close>

definition icontains :: "string \<Rightarrow> string \<Rightarrow> bool" where
  "icontains column part = contains (lower part) (lower column)"

subsection \<open>Names\<close>

text \<open>
  The names that the module \<^verbatim>\<open>accounts/models.py\<close> binds: its three imports and its four
  classes. The names that the body of \<^verbatim>\<open>get_recommended_jobs\<close> binds itself: its
  parameters, its two local imports and the variables it assigns. A name is looked up
  among the local names, then the names of the module, then Python's builtins, which hold
  no \<^verbatim>\<open>Q\<close>; a name that none of them binds raises \<^verbatim>\<open>NameError\<close>.
\<close>

definition module_names :: "string list" where
  "module_names = [''AbstractUser'', ''models'', ''RegexValidator'',
     ''User'', ''Skill'', ''UserProfile'', ''VerificationRequest'']"

definition get_recommended_jobs_locals :: "string list" where
  "get_recommended_jobs_locals = [''self'', ''limit'', ''Job'', ''timezone'',
     ''recommended_jobs'', ''user_location_parts'', ''location_queries'', ''part'']"

definition lookup_name :: "string list \<Rightarrow> string \<Rightarrow> error + unit" where
  "lookup_name names n = (if n \<in> set names then Inr () else Inl (NameError n))"

subsection \<open>Queries\<close>

text \<open>\<^verbatim>\<open>self.skills.all()\<close>: the skills that the link table gives the user.\<close>

definition skills_of :: "db \<Rightarrow> user \<Rightarrow> skill list" where
  "skills_of d self =
     filter (\<lambda>s. (user_id self, skill_id s) \<in> set (db_user_skills d)) (db_skills d)"

text \<open>\<^verbatim>\<open>Job.objects.filter(status='published', event_date__gte=today)\<close>\<close>

definition published_from :: "db \<Rightarrow> int \<Rightarrow> job list" where
  "published_from d today =
     filter (\<lambda>j. job_status j = ''published'' \<and> today \<le> job_event_date j) (db_jobs d)"

text \<open>\<^verbatim>\<open>.filter(required_skills__in=self.skills.all()).distinct()\<close>\<close>

definition requires_one_of :: "db \<Rightarrow> skill list \<Rightarrow> job \<Rightarrow> bool" where
  "requires_one_of d skills j \<longleftrightarrow>
     list_ex (\<lambda>s. (job_id j, skill_id s) \<in> set (db_job_required_skills d)) skills"

text \<open>
  A \<^verbatim>\<open>Q\<close> object built by \<^verbatim>\<open>Q()\<close> and \<^verbatim>\<open>|= Q(location__icontains=part)\<close> is the list of
  its parts; the empty \<^verbatim>\<open>Q()\<close> filters nothing out.
\<close>

definition q_matches :: "string list \<Rightarrow> job \<Rightarrow> bool" where
  "q_matches location_queries j \<longleftrightarrow>
     location_queries = [] \<or> list_ex (\<lambda>part. icontains (job_location j) part) location_queries"

text \<open>
  \<^verbatim>\<open>.order_by('-is_urgent', '-created_at')\<close> and \<^verbatim>\<open>.order_by('-created_at')\<close>, as stable
  sorts of the table (the order of rows that agree on the keys is the database's choice).
\<close>

definition order_by_created_at_desc :: "job list \<Rightarrow> job list" where
  "order_by_created_at_desc js = sort_key (\<lambda>j. - job_created_at j) js"

definition order_by_urgent_created_at_desc :: "job list \<Rightarrow> job list" where
  "order_by_urgent_created_at_desc js =
     sort_key (\<lambda>j. if job_is_urgent j then 0 else (1::nat)) (order_by_created_at_desc js)"

subsection \<open>The method\<close>

text \<open>
  \<open>today\<close> is \<^verbatim>\<open>timezone.now().date()\<close>. The result is the list of the jobs that the
  returned query set yields.
\<close>

definition get_recommended_jobs :: "db \<Rightarrow> int \<Rightarrow> user \<Rightarrow> nat \<Rightarrow> error + job list" where
  "get_recommended_jobs d today self limit =
     (let recommended_jobs = published_from d today;
          recommended_jobs =
            (if skills_of d self \<noteq> []
             then filter (requires_one_of d (skills_of d self)) recommended_jobs
             else recommended_jobs)
      in if location self \<noteq> [] then
           (let user_location_parts = split_on CHR '','' (lower (location self))
            in case lookup_name (get_recommended_jobs_locals @ module_names) ''Q'' of
                 Inl e \<Rightarrow> Inl e
               | Inr _ \<Rightarrow>
                   (let location_queries = filter (\<lambda>part. part \<noteq> []) (map strip user_location_parts)
                    in Inr (take limit (order_by_urgent_created_at_desc
                              (filter (q_matches location_queries) recommended_jobs)))))
         else Inr (take limit (order_by_urgent_created_at_desc recommended_jobs)))"

lemma Q_is_unbound:
  "lookup_name (get_recommended_jobs_locals @ module_names) ''Q'' = Inl (NameError ''Q'')"
  by (simp add: lookup_name_def get_recommended_jobs_locals_def module_names_def)

lemma get_recommended_jobs_with_location:
  "location self \<noteq> [] \<Longrightarrow> get_recommended_jobs d today self limit = Inl (NameError ''Q'')"
  by (simp add: get_recommended_jobs_def Let_def Q_is_unbound)

lemma get_recommended_jobs_without_location:
  "location self = [] \<Longrightarrow>
   get_recommended_jobs d today self limit =
     Inr (take limit (order_by_urgent_created_at_desc
       (if skills_of d self \<noteq> []
        then filter (requires_one_of d (skills_of d self)) (published_from d today)
        else published_from d today)))"
  by (simp add: get_recommended_jobs_def Let_def)

subsection \<open>Fixtures: Scenario C\<close>

text \<open>
  Scenario C: the user has the skills Photography and Catering and the location
  "Mumbai, Maharashtra"; a published job in Mumbai requires Photography, a published job
  in Delhi requires no skill of the user. The second user has neither skills nor a
  location.
\<close>

definition scenario_C_user :: user where
  "scenario_C_user = \<lparr>user_id = 5, first_name = ''Meera'', last_name = ''Shah'',
     role = ''volunteer'', phone_number = [], profile_picture = [], is_verified = False,
     bio = [], location = ''Mumbai, Maharashtra''\<rparr>"

definition mumbai_job :: job where
  "mumbai_job = \<lparr>job_id = 21, job_title = ''Event photographer'',
     job_description = ''Photos of a product launch'', job_category = 1, job_poster = 1,
     job_location = ''Mumbai'', job_event_date = 120, job_status = ''published'',
     job_is_urgent = False, job_created_at = 60\<rparr>"

definition delhi_job :: job where
  "delhi_job = \<lparr>job_id = 22, job_title = ''Stage security'',
     job_description = ''Guards for a concert'', job_category = 2, job_poster = 1,
     job_location = ''Delhi'', job_event_date = 130, job_status = ''published'',
     job_is_urgent = True, job_created_at = 61\<rparr>"

definition scenario_C_db :: db where
  "scenario_C_db = empty_db\<lparr>
     db_jobs := [mumbai_job, delhi_job],
     db_skills :=
       [\<lparr>skill_id = 1, skill_name = ''Photography'', skill_description = [], skill_category = []\<rparr>,
        \<lparr>skill_id = 2, skill_name = ''Catering'', skill_description = [], skill_category = []\<rparr>,
        \<lparr>skill_id = 3, skill_name = ''Security'', skill_description = [], skill_category = []\<rparr>],
     db_user_skills := [(5, 1), (5, 2)],
     db_job_required_skills := [(21, 1), (22, 3)]\<rparr>"

lemma scenario_C_published: "published_from scenario_C_db 100 = [mumbai_job, delhi_job]"
  by (simp add: published_from_def scenario_C_db_def empty_db_def mumbai_job_def delhi_job_def)

lemma volunteer_has_no_skills: "skills_of scenario_C_db volunteer_user = []"
  by (simp add: skills_of_def scenario_C_db_def empty_db_def volunteer_user_def)

lemma scenario_C_order:
  "order_by_urgent_created_at_desc [mumbai_job, delhi_job] = [delhi_job, mumbai_job]"
  by (simp add: order_by_urgent_created_at_desc_def order_by_created_at_desc_def
      mumbai_job_def delhi_job_def)

lemma scenario_C_without_location:
  "get_recommended_jobs scenario_C_db 100 volunteer_user 6 = Inr [delhi_job, mumbai_job]"
proof -
  have "location volunteer_user = []"
    by (simp add: volunteer_user_def)
  then show ?thesis
    by (simp add: get_recommended_jobs_without_location volunteer_has_no_skills
        scenario_C_published scenario_C_order)
qed

subsection \<open>Claims about the recommender\<close>

text \<open>
  C6 states that for a user with a location the recommender keeps exactly the jobs whose
  location contains one of the comma-separated parts of the user's location, so that in
  Scenario C it returns the Mumbai job alone. The branch that would do so starts with
  \<^verbatim>\<open>Q()\<close>, and \<^verbatim>\<open>accounts/models.py\<close> never imports \<^verbatim>\<open>Q\<close> (the same loop in
  \<^verbatim>\<open>jobs/views.py\<close> imports it first): in Scenario C the call raises \<^verbatim>\<open>NameError\<close> and
  returns no job.
\<close>

theorem scenario_C_raises_NameError:
  "location scenario_C_user = ''Mumbai, Maharashtra''
   \<and> get_recommended_jobs scenario_C_db 100 scenario_C_user 6 = Inl (NameError ''Q'')"
proof -
  have l: "location scenario_C_user = ''Mumbai, Maharashtra''"
    by (simp add: scenario_C_user_def)
  then have "location scenario_C_user \<noteq> []"
    by simp
  then show ?thesis
    using l by (simp add: get_recommended_jobs_with_location)
qed

text \<open>
  C7. For every user whose location is not empty, \<^verbatim>\<open>get_recommended_jobs\<close> raises
  \<^verbatim>\<open>NameError\<close> for the name \<^verbatim>\<open>Q\<close>, whatever the database, the day and the limit; for a
  user whose location is empty the call returns a list of jobs.
\<close>

theorem get_recommended_jobs_NameError:
  "(location self \<noteq> [] \<longrightarrow> get_recommended_jobs d today self limit = Inl (NameError ''Q''))
   \<and> (location self = [] \<longrightarrow> (\<exists>jobs. get_recommended_jobs d today self limit = Inr jobs))"
  by (simp add: get_recommended_jobs_with_location get_recommended_jobs_without_location)

theorem get_recommended_jobs_NameError_witness:
  "location poster_user \<noteq> []
   \<and> get_recommended_jobs scenario_C_db 100 poster_user 6 = Inl (NameError ''Q'')
   \<and> location volunteer_user = []
   \<and> get_recommended_jobs scenario_C_db 100 volunteer_user 6 = Inr [delhi_job, mumbai_job]"
proof -
  have a: "location poster_user \<noteq> []"
    by (simp add: poster_user_def)
  have b: "location volunteer_user = []"
    by (simp add: volunteer_user_def)
  from get_recommended_jobs_NameError [of poster_user scenario_C_db 100 6] a
  have "get_recommended_jobs scenario_C_db 100 poster_user 6 = Inl (NameError ''Q'')"
    by blast
  then show ?thesis
    using a b by (simp add: scenario_C_without_location)
qed

section \<open>The home page: \<^verbatim>\<open>core.views.home\<close>\<close>

text \<open>
  The part of the view that computes \<^verbatim>\<open>featured_jobs\<close>. A signed-in user gets
  \<^verbatim>\<open>request.user.get_recommended_jobs(limit=8)\<close>, whether or not the user has skills; the
  later call of \<^verbatim>\<open>auto_detect_skills\<close> writes skills only and does not change the jobs
  that this query yields.
\<close>

datatype request_user = AnonymousUser | AuthenticatedUser user

text \<open>
  \<^verbatim>\<open>Job.objects.filter(...).values_list('category', flat=True).distinct()\<close>. The model
  \<^verbatim>\<open>Job\<close> declares \<^verbatim>\<open>ordering = ['-created_at']\<close>, and Django adds the columns of the
  ordering to the columns that \<^verbatim>\<open>DISTINCT\<close> compares: the query yields one category per
  different pair of category and creation time, newest first.
\<close>

definition category_listing :: "db \<Rightarrow> int \<Rightarrow> nat list" where
  "category_listing d today =
     map fst (remdups (map (\<lambda>j. (job_category j, job_created_at j))
                        (order_by_created_at_desc (published_from d today))))"

text \<open>
  The loop \<^verbatim>\<open>for category_id in categories[:6]\<close>, which extends the list with
  \<^verbatim>\<open>featured_jobs.filter(category_id=category_id)[:2]\<close>.
\<close>

definition diverse_jobs :: "job list \<Rightarrow> nat list \<Rightarrow> job list" where
  "diverse_jobs featured_jobs categories =
     concat (map (\<lambda>category_id.
                    take 2 (filter (\<lambda>j. job_category j = category_id) featured_jobs))
                 (take 6 categories))"

definition home_featured_jobs :: "db \<Rightarrow> int \<Rightarrow> request_user \<Rightarrow> error + job list" where
  "home_featured_jobs d today request_user =
     (case request_user of
        AuthenticatedUser u \<Rightarrow> get_recommended_jobs d today u 8
      | AnonymousUser \<Rightarrow>
          (let featured_jobs = order_by_created_at_desc (published_from d today);
               categories = category_listing d today;
               diverse = diverse_jobs featured_jobs categories
           in Inr (if diverse \<noteq> [] then take 8 diverse else take 8 featured_jobs)))"

subsection \<open>The selection in the words of the specification\<close>

text \<open>
  At most two jobs of a category are taken from the candidates, and the selection stops
  only when the limit is reached or every category has given its two jobs (or all it
  has).
\<close>

definition two_per_category_until_exhausted :: "job list \<Rightarrow> nat \<Rightarrow> job list \<Rightarrow> bool" where
  "two_per_category_until_exhausted candidates limit result \<longleftrightarrow>
     set result \<subseteq> set candidates
     \<and> (\<forall>c. length (filter (\<lambda>j. job_category j = c) result) \<le> 2)
     \<and> (length result = limit
        \<or> (\<forall>c. length (filter (\<lambda>j. job_category j = c) result)
                = min 2 (length (filter (\<lambda>j. job_category j = c) candidates))))"

subsection \<open>Fixtures: seven categories, and three jobs of one category\<close>

definition fixture_job :: "nat \<Rightarrow> nat \<Rightarrow> job" where
  "fixture_job n c = \<lparr>job_id = n, job_title = ''Helper'', job_description = ''Help at an event'',
     job_category = c, job_poster = 1, job_location = ''Pune'', job_event_date = 200,
     job_status = ''published'', job_is_urgent = False, job_created_at = int n\<rparr>"

definition seven_categories_db :: db where
  "seven_categories_db = empty_db\<lparr>db_jobs :=
     [fixture_job 1 1, fixture_job 2 2, fixture_job 3 3, fixture_job 4 4, fixture_job 5 5,
      fixture_job 6 6, fixture_job 7 7]\<rparr>"

definition one_category_db :: db where
  "one_category_db = empty_db\<lparr>db_jobs := [fixture_job 1 1, fixture_job 2 1, fixture_job 3 1]\<rparr>"

lemma seven_categories_published:
  "published_from seven_categories_db 100 =
     [fixture_job 1 1, fixture_job 2 2, fixture_job 3 3, fixture_job 4 4, fixture_job 5 5,
      fixture_job 6 6, fixture_job 7 7]"
  by (simp add: published_from_def seven_categories_db_def empty_db_def fixture_job_def)

lemma seven_categories_newest_first:
  "order_by_created_at_desc (published_from seven_categories_db 100) =
     [fixture_job 7 7, fixture_job 6 6, fixture_job 5 5, fixture_job 4 4, fixture_job 3 3,
      fixture_job 2 2, fixture_job 1 1]"
  unfolding seven_categories_published
  by (simp add: order_by_created_at_desc_def fixture_job_def)

lemma seven_categories_listing:
  "category_listing seven_categories_db 100 = [7, 6, 5, 4, 3, 2, 1]"
  unfolding category_listing_def seven_categories_newest_first
  by (simp add: fixture_job_def)

lemma home_anonymous_seven_categories:
  "home_featured_jobs seven_categories_db 100 AnonymousUser =
     Inr [fixture_job 7 7, fixture_job 6 6, fixture_job 5 5, fixture_job 4 4, fixture_job 3 3,
          fixture_job 2 2]"
  unfolding home_featured_jobs_def seven_categories_listing seven_categories_newest_first
  by (simp add: diverse_jobs_def fixture_job_def)

lemma one_category_published:
  "published_from one_category_db 100 = [fixture_job 1 1, fixture_job 2 1, fixture_job 3 1]"
  by (simp add: published_from_def one_category_db_def empty_db_def fixture_job_def)

lemma one_category_order:
  "order_by_urgent_created_at_desc [fixture_job 1 1, fixture_job 2 1, fixture_job 3 1]
     = [fixture_job 3 1, fixture_job 2 1, fixture_job 1 1]"
  by (simp add: order_by_urgent_created_at_desc_def order_by_created_at_desc_def fixture_job_def)

lemma home_signed_in_one_category:
  "home_featured_jobs one_category_db 100 (AuthenticatedUser volunteer_user) =
     Inr [fixture_job 3 1, fixture_job 2 1, fixture_job 1 1]"
proof -
  have "location volunteer_user = []"
    by (simp add: volunteer_user_def)
  moreover have "skills_of one_category_db volunteer_user = []"
    by (simp add: skills_of_def one_category_db_def empty_db_def)
  ultimately have "get_recommended_jobs one_category_db 100 volunteer_user 8 =
      Inr (take 8 (order_by_urgent_created_at_desc (published_from one_category_db 100)))"
    by (simp add: get_recommended_jobs_without_location)
  then show ?thesis
    unfolding home_featured_jobs_def one_category_published one_category_order
    by simp
qed

text \<open>
  With three jobs of one category, created at different times, the listing names the
  category three times and the loop takes its two newest jobs each time: the selection
  holds each of them three times, where the comment of the loop announces
  "diverse jobs from different categories".
\<close>

lemma home_anonymous_one_category:
  "category_listing one_category_db 100 = [1, 1, 1]
   \<and> home_featured_jobs one_category_db 100 AnonymousUser =
       Inr [fixture_job 3 1, fixture_job 2 1, fixture_job 3 1, fixture_job 2 1,
            fixture_job 3 1, fixture_job 2 1]"
proof -
  have f: "order_by_created_at_desc (published_from one_category_db 100) =
      [fixture_job 3 1, fixture_job 2 1, fixture_job 1 1]"
    unfolding one_category_published
    by (simp add: order_by_created_at_desc_def fixture_job_def)
  have c: "category_listing one_category_db 100 = [1, 1, 1]"
    unfolding category_listing_def f by (simp add: fixture_job_def)
  show ?thesis
    unfolding home_featured_jobs_def c f
    by (simp add: diverse_jobs_def fixture_job_def)
qed

subsection \<open>What the anonymous branch guarantees\<close>

lemma set_order_by_created_at_desc: "set (order_by_created_at_desc js) = set js"
  by (simp add: order_by_created_at_desc_def)

lemma diverse_jobs_member:
  assumes "j \<in> set (diverse_jobs featured categories)"
  shows "j \<in> set (take 2 (filter (\<lambda>k. job_category k = job_category j) featured))
         \<and> job_category j \<in> set (take 6 categories)"
proof -
  from assms obtain c where c: "c \<in> set (take 6 categories)"
    and j: "j \<in> set (take 2 (filter (\<lambda>k. job_category k = c) featured))"
    by (auto simp: diverse_jobs_def)
  from j have "j \<in> set (filter (\<lambda>k. job_category k = c) featured)"
    by (rule in_set_takeD)
  then have "job_category j = c"
    by simp
  with c j show ?thesis
    by simp
qed

lemma diverse_jobs_nonempty:
  assumes "published_from d today \<noteq> []"
  shows "diverse_jobs (order_by_created_at_desc (published_from d today))
           (category_listing d today) \<noteq> []"
proof -
  let ?f = "order_by_created_at_desc (published_from d today)"
  have "set ?f \<noteq> {}"
    using assms by (simp add: set_order_by_created_at_desc)
  then have "category_listing d today \<noteq> []"
    by (simp add: category_listing_def)
  then obtain c cs where cs: "category_listing d today = c # cs"
    by (cases "category_listing d today") auto
  then have "c \<in> set (category_listing d today)"
    by simp
  then obtain j where "j \<in> set ?f" "job_category j = c"
    by (auto simp: category_listing_def)
  then have "filter (\<lambda>k. job_category k = c) ?f \<noteq> []"
    by (auto simp: filter_empty_conv)
  then have "take 2 (filter (\<lambda>k. job_category k = c) ?f) \<noteq> []"
    by simp
  then show ?thesis
    by (simp add: diverse_jobs_def cs)
qed

lemma home_anonymous_result:
  "home_featured_jobs d today AnonymousUser =
     Inr (take 8 (diverse_jobs (order_by_created_at_desc (published_from d today))
                    (category_listing d today)))"
proof (cases "published_from d today = []")
  case True
  then show ?thesis
    by (simp add: home_featured_jobs_def Let_def diverse_jobs_def order_by_created_at_desc_def
        category_listing_def)
next
  case False
  then show ?thesis
    using diverse_jobs_nonempty [of d today]
    by (simp add: home_featured_jobs_def Let_def)
qed

lemma taken_jobs_properties:
  fixes featured :: "job list"
  assumes "set js \<subseteq> set (diverse_jobs featured categories)"
  shows "set js \<subseteq> set featured"
    and "card (job_category ` set js) \<le> 6"
proof -
  show "set js \<subseteq> set featured"
  proof
    fix j assume "j \<in> set js"
    with assms have "j \<in> set (take 2 (filter (\<lambda>k. job_category k = job_category j) featured))"
      using diverse_jobs_member by blast
    then have "j \<in> set (filter (\<lambda>k. job_category k = job_category j) featured)"
      by (rule in_set_takeD)
    then show "j \<in> set featured"
      by simp
  qed
  have "job_category ` set js \<subseteq> set (take 6 categories)"
    using assms diverse_jobs_member by blast
  then have "card (job_category ` set js) \<le> card (set (take 6 categories))"
    by (simp add: card_mono)
  also have "\<dots> \<le> length (take 6 categories)"
    by (rule card_length)
  also have "\<dots> \<le> 6"
    by simp
  finally show "card (job_category ` set js) \<le> 6" .
qed

subsection \<open>The loop over a listing\<close>

lemma diverse_jobs_first_six:
  "diverse_jobs featured categories = diverse_jobs featured (take 6 categories)"
  by (simp add: diverse_jobs_def)

lemma diverse_jobs_single:
  "diverse_jobs featured [c] = take 2 (filter (\<lambda>j. job_category j = c) featured)"
  by (simp add: diverse_jobs_def)

lemma collected_other_category:
  "c \<notin> set categories \<Longrightarrow>
   filter (\<lambda>j. job_category j = c)
     (concat (map (\<lambda>category_id. take 2 (filter (\<lambda>j. job_category j = category_id) featured))
                  categories)) = []"
proof (induction categories)
  case Nil
  show ?case by simp
next
  case (Cons first rest)
  then have "c \<noteq> first" and "c \<notin> set rest"
    by auto
  moreover have "filter (\<lambda>j. job_category j = c)
      (take 2 (filter (\<lambda>j. job_category j = first) featured)) = []"
    using \<open>c \<noteq> first\<close> by (auto simp: filter_empty_conv dest: in_set_takeD)
  ultimately show ?case
    using Cons.IH by simp
qed

lemma collected_per_category:
  "distinct categories \<Longrightarrow>
   length (filter (\<lambda>j. job_category j = c)
     (concat (map (\<lambda>category_id. take 2 (filter (\<lambda>j. job_category j = category_id) featured))
                  categories))) \<le> 2"
proof (induction categories)
  case Nil
  show ?case by simp
next
  case (Cons first rest)
  then have d: "first \<notin> set rest" "distinct rest"
    by auto
  show ?case
  proof (cases "c = first")
    case True
    then have "c \<notin> set rest"
      using d by simp
    then have "filter (\<lambda>j. job_category j = c)
        (concat (map (\<lambda>category_id. take 2 (filter (\<lambda>j. job_category j = category_id) featured))
                     rest)) = []"
      by (rule collected_other_category)
    moreover have "length (filter (\<lambda>j. job_category j = c)
        (take 2 (filter (\<lambda>j. job_category j = first) featured)))
        \<le> length (take 2 (filter (\<lambda>j. job_category j = first) featured))"
      by (rule length_filter_le)
    ultimately show ?thesis
      by simp
  next
    case False
    then have "filter (\<lambda>j. job_category j = c)
        (take 2 (filter (\<lambda>j. job_category j = first) featured)) = []"
      by (auto simp: filter_empty_conv dest: in_set_takeD)
    then show ?thesis
      using Cons.IH [OF d(2)] by simp
  qed
qed

lemma diverse_jobs_per_category:
  "distinct categories \<Longrightarrow>
   length (filter (\<lambda>j. job_category j = c) (diverse_jobs featured categories)) \<le> 2"
  unfolding diverse_jobs_def by (rule collected_per_category) simp

lemma set_category_listing:
  "set (category_listing d today) = job_category ` set (published_from d today)"
  by (auto simp: category_listing_def set_order_by_created_at_desc image_iff)

subsection \<open>Fixture: three jobs of one category created at the same time\<close>

text \<open>
  Three jobs of category 1 with the same creation time, and a newer job of category 2:
  the listing names each category once.
\<close>

definition fixture_job_at :: "nat \<Rightarrow> nat \<Rightarrow> int \<Rightarrow> job" where
  "fixture_job_at n c t = (fixture_job n c)\<lparr>job_created_at := t\<rparr>"

definition same_time_db :: db where
  "same_time_db = empty_db\<lparr>db_jobs :=
     [fixture_job_at 1 1 5, fixture_job_at 2 1 5, fixture_job_at 3 1 5, fixture_job_at 4 2 6]\<rparr>"

lemma same_time_published:
  "published_from same_time_db 100 =
     [fixture_job_at 1 1 5, fixture_job_at 2 1 5, fixture_job_at 3 1 5, fixture_job_at 4 2 6]"
  by (simp add: published_from_def same_time_db_def empty_db_def fixture_job_at_def fixture_job_def)

lemma same_time_newest_first:
  "order_by_created_at_desc (published_from same_time_db 100) =
     [fixture_job_at 4 2 6, fixture_job_at 1 1 5, fixture_job_at 2 1 5, fixture_job_at 3 1 5]"
  unfolding same_time_published
  by (simp add: order_by_created_at_desc_def fixture_job_at_def fixture_job_def)

lemma same_time_listing: "category_listing same_time_db 100 = [2, 1]"
  unfolding category_listing_def same_time_newest_first
  by (simp add: fixture_job_at_def fixture_job_def)

lemma home_anonymous_same_time:
  "home_featured_jobs same_time_db 100 AnonymousUser =
     Inr [fixture_job_at 4 2 6, fixture_job_at 1 1 5, fixture_job_at 2 1 5]"
  unfolding home_anonymous_result same_time_listing same_time_newest_first
  by (simp add: diverse_jobs_def fixture_job_at_def fixture_job_def)

lemma same_time_counts:
  "length (filter (\<lambda>j. job_category j = 1) (published_from same_time_db 100)) = 3"
  "length (filter (\<lambda>j. job_category j = 1)
     [fixture_job_at 4 2 6, fixture_job_at 1 1 5, fixture_job_at 2 1 5]) = 2"
  unfolding same_time_published
  by (simp_all add: fixture_job_at_def fixture_job_def)

subsection \<open>Claims about the home page\<close>

text \<open>
  C9 as the specification states it: for an anonymous or no-skill request the selection
  takes at most two jobs per category and goes on until the limit is reached or the
  categories are exhausted. With seven categories of one job each, the anonymous
  selection stops after six categories: it returns six jobs, fewer than the limit of
  eight, and leaves the seventh category out. A signed-in user without skills (and
  without location) is served by \<^verbatim>\<open>get_recommended_jobs\<close>: with three published jobs of one
  category, all three are returned.
\<close>

theorem home_selection_counterexample:
  "home_featured_jobs seven_categories_db 100 AnonymousUser =
     Inr [fixture_job 7 7, fixture_job 6 6, fixture_job 5 5, fixture_job 4 4, fixture_job 3 3,
          fixture_job 2 2]
   \<and> \<not> two_per_category_until_exhausted (published_from seven_categories_db 100) 8
         [fixture_job 7 7, fixture_job 6 6, fixture_job 5 5, fixture_job 4 4, fixture_job 3 3,
          fixture_job 2 2]
   \<and> home_featured_jobs one_category_db 100 (AuthenticatedUser volunteer_user) =
       Inr [fixture_job 3 1, fixture_job 2 1, fixture_job 1 1]
   \<and> \<not> two_per_category_until_exhausted (published_from one_category_db 100) 8
         [fixture_job 3 1, fixture_job 2 1, fixture_job 1 1]"
proof -
  let ?six = "[fixture_job 7 7, fixture_job 6 6, fixture_job 5 5, fixture_job 4 4,
               fixture_job 3 3, fixture_job 2 2]"
  let ?three = "[fixture_job 3 1, fixture_job 2 1, fixture_job 1 1]"
  have six: "length (filter (\<lambda>j. job_category j = 1) ?six) = 0"
    by (simp add: fixture_job_def)
  have seven: "length (filter (\<lambda>j. job_category j = 1) (published_from seven_categories_db 100)) = 1"
    unfolding seven_categories_published by (simp add: fixture_job_def)
  have a: "\<not> two_per_category_until_exhausted (published_from seven_categories_db 100) 8 ?six"
  proof
    assume "two_per_category_until_exhausted (published_from seven_categories_db 100) 8 ?six"
    then have "length ?six = 8
        \<or> length (filter (\<lambda>j. job_category j = 1) ?six)
            = min 2 (length (filter (\<lambda>j. job_category j = 1) (published_from seven_categories_db 100)))"
      unfolding two_per_category_until_exhausted_def by blast
    then show False
      unfolding six seven by simp
  qed
  have three: "length (filter (\<lambda>j. job_category j = 1) ?three) = 3"
    by (simp add: fixture_job_def)
  have b: "\<not> two_per_category_until_exhausted (published_from one_category_db 100) 8 ?three"
  proof
    assume "two_per_category_until_exhausted (published_from one_category_db 100) 8 ?three"
    then have "length (filter (\<lambda>j. job_category j = 1) ?three) \<le> 2"
      unfolding two_per_category_until_exhausted_def by blast
    then show False
      unfolding three by simp
  qed
  show ?thesis
    using a b home_anonymous_seven_categories home_signed_in_one_category by blast
qed

text \<open>
  C9 as amended. A signed-in user, with or without skills, is served by
  \<^verbatim>\<open>get_recommended_jobs\<close> with the limit 8. For an anonymous request the selection takes
  the published jobs of today or later, newest first, goes through a listing of their
  categories, of which it visits the first six entries at most, takes the two newest jobs
  of the category of each entry it visits, and returns the first eight jobs so collected:
  every job returned is a published job of today or later, at most eight are returned, and
  they come from at most six categories. Over a listing that names each category once the
  loop collects at most two jobs per category.
\<close>

theorem home_anonymous_selection:
  "home_featured_jobs d today (AuthenticatedUser u) = get_recommended_jobs d today u 8
   \<and> (\<exists>categories js.
         home_featured_jobs d today AnonymousUser = Inr js
       \<and> set categories = job_category ` set (published_from d today)
       \<and> js = take 8 (diverse_jobs (order_by_created_at_desc (published_from d today)) categories)
       \<and> (\<forall>j \<in> set js. j \<in> set (db_jobs d) \<and> job_status j = ''published''
                           \<and> today \<le> job_event_date j)
       \<and> length js \<le> 8
       \<and> card (job_category ` set js) \<le> 6)
   \<and> (\<forall>featured categories c.
         diverse_jobs featured categories = diverse_jobs featured (take 6 categories)
       \<and> diverse_jobs featured [c] = take 2 (filter (\<lambda>j. job_category j = c) featured)
       \<and> (distinct categories \<longrightarrow>
            length (filter (\<lambda>j. job_category j = c) (diverse_jobs featured categories)) \<le> 2))"
proof -
  let ?f = "order_by_created_at_desc (published_from d today)"
  let ?cs = "category_listing d today"
  let ?js = "take 8 (diverse_jobs ?f ?cs)"
  have sub: "set ?js \<subseteq> set (diverse_jobs ?f ?cs)"
    by (rule set_take_subset)
  have "set ?js \<subseteq> set ?f"
    using taken_jobs_properties(1) [OF sub] .
  then have "set ?js \<subseteq> set (published_from d today)"
    by (simp add: set_order_by_created_at_desc)
  then have 1: "\<forall>j \<in> set ?js. j \<in> set (db_jobs d) \<and> job_status j = ''published''
      \<and> today \<le> job_event_date j"
    by (auto simp: published_from_def)
  have 2: "length ?js \<le> 8"
    by simp
  have 3: "card (job_category ` set ?js) \<le> 6"
    using taken_jobs_properties(2) [OF sub] .
  have 4: "home_featured_jobs d today (AuthenticatedUser u) = get_recommended_jobs d today u 8"
    by (simp add: home_featured_jobs_def)
  have 5: "\<exists>categories js.
         home_featured_jobs d today AnonymousUser = Inr js
       \<and> set categories = job_category ` set (published_from d today)
       \<and> js = take 8 (diverse_jobs ?f categories)
       \<and> (\<forall>j \<in> set js. j \<in> set (db_jobs d) \<and> job_status j = ''published''
                           \<and> today \<le> job_event_date j)
       \<and> length js \<le> 8
       \<and> card (job_category ` set js) \<le> 6"
    using home_anonymous_result [of d today] set_category_listing [of d today] 1 2 3
    by blast
  have 6: "\<forall>featured categories c.
         diverse_jobs featured categories = diverse_jobs featured (take 6 categories)
       \<and> diverse_jobs featured [c] = take 2 (filter (\<lambda>j. job_category j = c) featured)
       \<and> (distinct categories \<longrightarrow>
            length (filter (\<lambda>j. job_category j = c) (diverse_jobs featured categories)) \<le> 2)"
    using diverse_jobs_first_six diverse_jobs_single diverse_jobs_per_category by blast
  show ?thesis
    using 4 5 6 by blast
qed

text \<open>
  The witness: with three jobs of category 1 created at the same time and a newer job of
  category 2, the listing is \<open>[2, 1]\<close>, and the anonymous selection returns the job of
  category 2 and two of the three jobs of category 1, all of them published and not
  before the day of the request.
\<close>

theorem home_anonymous_selection_witness:
  "home_featured_jobs same_time_db 100 AnonymousUser =
     Inr [fixture_job_at 4 2 6, fixture_job_at 1 1 5, fixture_job_at 2 1 5]
   \<and> list_all (\<lambda>j. j \<in> set (db_jobs same_time_db) \<and> job_status j = ''published''
                    \<and> 100 \<le> job_event_date j)
        [fixture_job_at 4 2 6, fixture_job_at 1 1 5, fixture_job_at 2 1 5]
   \<and> distinct (category_listing same_time_db 100)
   \<and> length (filter (\<lambda>j. job_category j = 1) (published_from same_time_db 100)) = 3
   \<and> length (filter (\<lambda>j. job_category j = 1)
        (diverse_jobs (order_by_created_at_desc (published_from same_time_db 100))
           (category_listing same_time_db 100))) = 2
   \<and> length (filter (\<lambda>j. job_category j = 1)
        (diverse_jobs (order_by_created_at_desc (published_from same_time_db 100))
           (category_listing same_time_db 100))) \<le> 2"
proof -
  let ?f = "order_by_created_at_desc (published_from same_time_db 100)"
  let ?cs = "category_listing same_time_db 100"
  let ?three = "[fixture_job_at 4 2 6, fixture_job_at 1 1 5, fixture_job_at 2 1 5]"
  note t = home_anonymous_selection [of same_time_db 100 volunteer_user]
  have d: "distinct ?cs"
    by (simp add: same_time_listing)
  from t d have bound:
    "length (filter (\<lambda>j. job_category j = 1) (diverse_jobs ?f ?cs)) \<le> 2"
    by blast
  from t obtain js where js: "home_featured_jobs same_time_db 100 AnonymousUser = Inr js"
    and all: "\<forall>j \<in> set js. j \<in> set (db_jobs same_time_db) \<and> job_status j = ''published''
        \<and> 100 \<le> job_event_date j"
    by blast
  from js have "js = ?three"
    by (simp add: home_anonymous_same_time)
  with all have listed: "list_all (\<lambda>j. j \<in> set (db_jobs same_time_db)
      \<and> job_status j = ''published'' \<and> 100 \<le> job_event_date j) ?three"
    by (simp add: list_all_iff)
  have collected: "diverse_jobs ?f ?cs = ?three"
    unfolding same_time_listing same_time_newest_first
    by (simp add: diverse_jobs_def fixture_job_at_def fixture_job_def)
  have two: "length (filter (\<lambda>j. job_category j = 1) (diverse_jobs ?f ?cs)) = 2"
    unfolding collected by (rule same_time_counts(2))
  show ?thesis
    using home_anonymous_same_time listed d same_time_counts(1) two bound by blast
qed

section \<open>Skill inference: \<^verbatim>\<open>User.auto_detect_skills\<close>\<close>

text \<open>The dictionary \<^verbatim>\<open>skill_keywords\<close>, in the order in which it is written.\<close>

definition skill_keywords :: "(string \<times> string list) list" where
  "skill_keywords =
     [(''photography'', [''photo'', ''camera'', ''shoot'', ''photographer'']),
      (''event_management'', [''manage'', ''organize'', ''coordinate'', ''planning'']),
      (''customer_service'', [''customer'', ''service'', ''reception'', ''front desk'']),
      (''technical_support'', [''technical'', ''tech'', ''computer'', ''it'', ''sound'']),
      (''sales'', [''sales'', ''sell'', ''marketing'', ''promotion'']),
      (''security'', [''security'', ''guard'', ''safety'']),
      (''catering'', [''food'', ''catering'', ''kitchen'', ''serve'']),
      (''decoration'', [''decor'', ''decoration'', ''design'', ''setup'']),
      (''transportation'', [''driver'', ''transport'', ''delivery'']),
      (''communication'', [''presenter'', ''mc'', ''anchor'', ''speaking''])]"

text \<open>
  The inner loop over the dictionary: the names whose list has a keyword that occurs in
  the text.
\<close>

definition detect :: "string \<Rightarrow> string list" where
  "detect job_text =
     map fst (filter (\<lambda>(name, keywords). list_ex (\<lambda>keyword. contains keyword job_text) keywords)
                skill_keywords)"

text \<open>
  The accepted applications of the user, each with the job it is joined to
  (\<^verbatim>\<open>select_related('job')\<close>), and the jobs the user has posted.
\<close>

definition accepted_apps :: "db \<Rightarrow> user \<Rightarrow> (job_application \<times> job) list" where
  "accepted_apps d self =
     concat (map (\<lambda>a. case find (\<lambda>j. job_id j = app_job a) (db_jobs d) of
                         None \<Rightarrow> []
                       | Some j \<Rightarrow> [(a, j)])
                 (filter (\<lambda>a. app_volunteer a = user_id self \<and> app_status a = ''accepted'')
                    (db_applications d)))"

definition posted_jobs :: "db \<Rightarrow> user \<Rightarrow> job list" where
  "posted_jobs d self = filter (\<lambda>j. job_poster j = user_id self) (db_jobs d)"

text \<open>
  The set \<^verbatim>\<open>detected_skills\<close> after the two loops, as a list without repetition. Python
  iterates over a set in an order of its own; the lemmas on the last loop below hold for
  every order.
\<close>

definition detected_skills :: "db \<Rightarrow> user \<Rightarrow> string list" where
  "detected_skills d self =
     remdups
       (concat (map (\<lambda>(app, j). detect (lower (job_title j @ '' '' @ job_description j @ '' ''
                                            @ app_relevant_experience app)))
                    (accepted_apps d self))
        @ concat (map (\<lambda>j. detect (lower (job_title j @ '' '' @ job_description j)))
                      (posted_jobs d self)))"

text \<open>\<^verbatim>\<open>skill_name.replace('_', ' ').title()\<close>\<close>

definition replace_underscore :: "string \<Rightarrow> string" where
  "replace_underscore s = map (\<lambda>c. if c = CHR ''_'' then CHR '' '' else c) s"

definition upper_char :: "char \<Rightarrow> char" where
  "upper_char c =
     (case map_of (zip ''abcdefghijklmnopqrstuvwxyz'' ''ABCDEFGHIJKLMNOPQRSTUVWXYZ'') c of
        None \<Rightarrow> c
      | Some u \<Rightarrow> u)"

definition is_letter :: "char \<Rightarrow> bool" where
  "is_letter c \<longleftrightarrow>
     c \<in> set ''abcdefghijklmnopqrstuvwxyzABCDEFGHIJKLMNOPQRSTUVWXYZ''"

fun title_from :: "bool \<Rightarrow> string \<Rightarrow> string" where
  "title_from in_word [] = []"
| "title_from in_word (c # cs) =
     (if is_letter c
      then (if in_word then lower_char c else upper_char c) # title_from True cs
      else c # title_from False cs)"

definition title :: "string \<Rightarrow> string" where
  "title s = title_from False s"

text \<open>
  \<^verbatim>\<open>Skill.objects.get_or_create(name=..., defaults={'description': ...})\<close>: the row with
  that name (names are unique), or a new row with the next primary key. It returns the
  row, whether it was created, and the database.
\<close>

definition next_skill_id :: "db \<Rightarrow> nat" where
  "next_skill_id d = Suc (fold max (map skill_id (db_skills d)) 0)"

definition get_or_create :: "string \<Rightarrow> string \<Rightarrow> db \<Rightarrow> (skill \<times> bool) \<times> db" where
  "get_or_create name description d =
     (case find (\<lambda>s. skill_name s = name) (db_skills d) of
        Some s \<Rightarrow> ((s, False), d)
      | None \<Rightarrow>
          (let s = \<lparr>skill_id = next_skill_id d, skill_name = name,
                    skill_description = description, skill_category = []\<rparr>
           in ((s, True), d\<lparr>db_skills := db_skills d @ [s]\<rparr>)))"

text \<open>\<^verbatim>\<open>self.skills.add(skill)\<close>: a link that is already there is not added again.\<close>

definition skills_add :: "user \<Rightarrow> skill \<Rightarrow> db \<Rightarrow> db" where
  "skills_add self s d =
     (if (user_id self, skill_id s) \<in> set (db_user_skills d) then d
      else d\<lparr>db_user_skills := db_user_skills d @ [(user_id self, skill_id s)]\<rparr>)"

text \<open>The last loop of the method, one name of the set after the other.\<close>

definition add_detected_skill :: "user \<Rightarrow> string \<Rightarrow> db \<Rightarrow> db" where
  "add_detected_skill self name d =
     (let ((s, created), d1) =
            get_or_create (title (replace_underscore name))
              ''Auto-detected from user activity'' d
      in skills_add self s d1)"

fun add_detected_skills :: "user \<Rightarrow> string list \<Rightarrow> db \<Rightarrow> db" where
  "add_detected_skills self [] d = d"
| "add_detected_skills self (name # rest) d =
     add_detected_skills self rest (add_detected_skill self name d)"

definition auto_detect_skills :: "user \<Rightarrow> db \<Rightarrow> db" where
  "auto_detect_skills self d = add_detected_skills self (detected_skills d self) d"

subsection \<open>What one round of the last loop changes\<close>

text \<open>
  A name is linked when the skill table has a row of that name and the link table joins
  the first such row to the user.
\<close>

definition linked :: "user \<Rightarrow> db \<Rightarrow> string \<Rightarrow> bool" where
  "linked self d name \<longleftrightarrow>
     (\<exists>s. find (\<lambda>s. skill_name s = name) (db_skills d) = Some s
          \<and> (user_id self, skill_id s) \<in> set (db_user_skills d))"

lemma find_append_Some: "find P xs = Some x \<Longrightarrow> find P (xs @ ys) = Some x"
  by (induction xs) auto

lemma find_append_None: "find P xs = None \<Longrightarrow> find P (xs @ ys) = find P ys"
  by (induction xs) (auto split: if_splits)

lemma skills_add_tables:
  "db_jobs (skills_add self s d) = db_jobs d"
  "db_applications (skills_add self s d) = db_applications d"
  "db_skills (skills_add self s d) = db_skills d"
  "\<exists>new. db_user_skills (skills_add self s d) = db_user_skills d @ new"
  "(user_id self, skill_id s) \<in> set (db_user_skills (skills_add self s d))"
  by (simp_all add: skills_add_def)

lemma get_or_create_tables:
  "db_jobs (snd (get_or_create name description d)) = db_jobs d"
  "db_applications (snd (get_or_create name description d)) = db_applications d"
  "db_user_skills (snd (get_or_create name description d)) = db_user_skills d"
  "\<exists>new. db_skills (snd (get_or_create name description d)) = db_skills d @ new"
  by (simp_all add: get_or_create_def Let_def split: option.split)

lemma get_or_create_finds:
  "find (\<lambda>s. skill_name s = name) (db_skills (snd (get_or_create name description d)))
     = Some (fst (fst (get_or_create name description d)))"
  by (simp add: get_or_create_def Let_def find_append_None split: option.split)

lemma add_detected_skill_unfold:
  "add_detected_skill self name d =
     skills_add self
       (fst (fst (get_or_create (title (replace_underscore name))
                    ''Auto-detected from user activity'' d)))
       (snd (get_or_create (title (replace_underscore name))
               ''Auto-detected from user activity'' d))"
  by (simp add: add_detected_skill_def split_beta)

lemma add_detected_skill_tables:
  "db_jobs (add_detected_skill self name d) = db_jobs d"
  "db_applications (add_detected_skill self name d) = db_applications d"
  "\<exists>new. db_skills (add_detected_skill self name d) = db_skills d @ new"
  "\<exists>new. db_user_skills (add_detected_skill self name d) = db_user_skills d @ new"
  unfolding add_detected_skill_unfold
  using skills_add_tables(4) [of self _ "snd (get_or_create (title (replace_underscore name))
               ''Auto-detected from user activity'' d)"]
  by (simp_all add: skills_add_tables(1,2,3) get_or_create_tables)

lemma add_detected_skill_links:
  "linked self (add_detected_skill self name d) (title (replace_underscore name))"
  unfolding linked_def add_detected_skill_unfold
  by (simp add: skills_add_tables(3,5) get_or_create_finds)

lemma add_detected_skill_keeps_linked:
  assumes "linked self d other"
  shows "linked self (add_detected_skill self name d) other"
proof -
  from assms obtain s where s: "find (\<lambda>s. skill_name s = other) (db_skills d) = Some s"
    and l: "(user_id self, skill_id s) \<in> set (db_user_skills d)"
    by (auto simp: linked_def)
  obtain new_skills where ns:
    "db_skills (add_detected_skill self name d) = db_skills d @ new_skills"
    using add_detected_skill_tables(3) by blast
  obtain new_links where nl:
    "db_user_skills (add_detected_skill self name d) = db_user_skills d @ new_links"
    using add_detected_skill_tables(4) by blast
  have "find (\<lambda>s. skill_name s = other) (db_skills (add_detected_skill self name d)) = Some s"
    by (simp add: ns find_append_Some s)
  moreover have "(user_id self, skill_id s) \<in> set (db_user_skills (add_detected_skill self name d))"
    by (simp add: nl l)
  ultimately show ?thesis
    by (auto simp: linked_def)
qed

lemma add_detected_skill_of_linked:
  assumes "linked self d (title (replace_underscore name))"
  shows "add_detected_skill self name d = d"
proof -
  from assms obtain s where
    s: "find (\<lambda>s. skill_name s = title (replace_underscore name)) (db_skills d) = Some s"
    and l: "(user_id self, skill_id s) \<in> set (db_user_skills d)"
    by (auto simp: linked_def)
  have "get_or_create (title (replace_underscore name)) ''Auto-detected from user activity'' d
          = ((s, False), d)"
    by (simp add: get_or_create_def s)
  then show ?thesis
    by (simp add: add_detected_skill_def skills_add_def l)
qed

subsection \<open>The whole loop, for every order of the names\<close>

lemma add_detected_skills_tables:
  "db_jobs (add_detected_skills self names d) = db_jobs d"
  "db_applications (add_detected_skills self names d) = db_applications d"
  by (induction names arbitrary: d) (simp_all add: add_detected_skill_tables)

lemma add_detected_skills_appends:
  "\<exists>new_skills new_links.
      db_skills (add_detected_skills self names d) = db_skills d @ new_skills
      \<and> db_user_skills (add_detected_skills self names d) = db_user_skills d @ new_links"
proof (induction names arbitrary: d)
  case Nil
  show ?case by simp
next
  case (Cons name rest)
  obtain s1 where s1: "db_skills (add_detected_skill self name d) = db_skills d @ s1"
    using add_detected_skill_tables(3) by blast
  obtain l1 where l1: "db_user_skills (add_detected_skill self name d) = db_user_skills d @ l1"
    using add_detected_skill_tables(4) by blast
  from Cons.IH [of "add_detected_skill self name d"] obtain s2 l2 where
    "db_skills (add_detected_skills self rest (add_detected_skill self name d))
       = db_skills (add_detected_skill self name d) @ s2"
    "db_user_skills (add_detected_skills self rest (add_detected_skill self name d))
       = db_user_skills (add_detected_skill self name d) @ l2"
    by blast
  then show ?case
    by (simp add: s1 l1)
qed

lemma add_detected_skills_keep_linked:
  "linked self d other \<Longrightarrow> linked self (add_detected_skills self names d) other"
  by (induction names arbitrary: d) (simp_all add: add_detected_skill_keeps_linked)

lemma add_detected_skills_link_all:
  "name \<in> set names \<Longrightarrow>
   linked self (add_detected_skills self names d) (title (replace_underscore name))"
proof (induction names arbitrary: d)
  case Nil
  then show ?case by simp
next
  case (Cons first rest)
  show ?case
  proof (cases "name = first")
    case True
    then show ?thesis
      by (simp add: add_detected_skills_keep_linked add_detected_skill_links)
  next
    case False
    with Cons.prems have "name \<in> set rest" by simp
    then show ?thesis
      by (simp add: Cons.IH)
  qed
qed

lemma add_detected_skills_of_linked:
  "(\<And>name. name \<in> set names \<Longrightarrow> linked self d (title (replace_underscore name))) \<Longrightarrow>
   add_detected_skills self names d = d"
  by (induction names) (simp_all add: add_detected_skill_of_linked)

lemma add_detected_skills_again:
  assumes "set again \<subseteq> set names"
  shows "add_detected_skills self again (add_detected_skills self names d)
           = add_detected_skills self names d"
  using assms by (intro add_detected_skills_of_linked add_detected_skills_link_all) auto

lemma skills_of_grows:
  "set (skills_of d self) \<subseteq> set (skills_of (add_detected_skills self names d) self)"
proof -
  obtain new_skills new_links where
    "db_skills (add_detected_skills self names d) = db_skills d @ new_skills"
    "db_user_skills (add_detected_skills self names d) = db_user_skills d @ new_links"
    using add_detected_skills_appends by blast
  then show ?thesis
    by (auto simp: skills_of_def)
qed

lemma detected_skills_unchanged:
  "detected_skills (add_detected_skills self names d) usr = detected_skills d usr"
  by (simp add: detected_skills_def accepted_apps_def posted_jobs_def add_detected_skills_tables)

lemma auto_detect_skills_twice:
  "auto_detect_skills self (auto_detect_skills self d) = auto_detect_skills self d"
  unfolding auto_detect_skills_def detected_skills_unchanged
  by (rule add_detected_skills_again) simp

subsection \<open>Claim about skill inference\<close>

text \<open>
  Fixture: the volunteer already has the skill Catering, and has an accepted application
  for the job "Wedding photo shoot".
\<close>

definition skilled_db :: db where
  "skilled_db = accepted_db\<lparr>
     db_skills := [\<lparr>skill_id = 4, skill_name = ''Catering'', skill_description = [],
                    skill_category = []\<rparr>],
     db_user_skills := [(2, 4)]\<rparr>"

lemma skilled_db_before:
  "map skill_name (skills_of skilled_db volunteer_user) = [''Catering'']"
  by code_simp

lemma skilled_db_after:
  "map skill_name (skills_of (auto_detect_skills volunteer_user skilled_db) volunteer_user)
     = [''Catering'', ''Photography'']"
  by code_simp

text \<open>
  C5. For every user and every database, skill inference is monotone: each skill the
  user had before is a skill of the user afterwards. It is idempotent: inference changes
  neither the jobs nor the applications, and a second run leaves the database, hence the
  skills of the user, as the first run left them.
\<close>

theorem auto_detect_skills_monotone_idempotent:
  "set (skills_of d self) \<subseteq> set (skills_of (auto_detect_skills self d) self)
   \<and> db_jobs (auto_detect_skills self d) = db_jobs d
   \<and> db_applications (auto_detect_skills self d) = db_applications d
   \<and> auto_detect_skills self (auto_detect_skills self d) = auto_detect_skills self d
   \<and> skills_of (auto_detect_skills self (auto_detect_skills self d)) self
       = skills_of (auto_detect_skills self d) self"
  by (simp add: auto_detect_skills_twice)
     (simp add: auto_detect_skills_def skills_of_grows add_detected_skills_tables)

theorem auto_detect_skills_monotone_idempotent_witness:
  "map skill_name (skills_of skilled_db volunteer_user) = [''Catering'']
   \<and> map skill_name (skills_of (auto_detect_skills volunteer_user skilled_db) volunteer_user)
       = [''Catering'', ''Photography'']
   \<and> set (skills_of skilled_db volunteer_user)
       \<subseteq> set (skills_of (auto_detect_skills volunteer_user skilled_db) volunteer_user)
   \<and> auto_detect_skills volunteer_user (auto_detect_skills volunteer_user skilled_db)
       = auto_detect_skills volunteer_user skilled_db"
  using auto_detect_skills_monotone_idempotent [of skilled_db volunteer_user]
    skilled_db_before skilled_db_after
  by blast

end
